theory Spec2Isabelle
  imports Main "HOL-Library.Sublist"
begin

section \<open>JavaScript values used by the pipeline\<close>

text \<open>
  Source text is a \<^typ>\<open>string\<close>: one \<^typ>\<open>char\<close> per UTF-16 code unit, for
  code units below 256. \<open>String.prototype.startsWith\<close> and \<open>includes\<close> are the
  prefix and the contiguous-sublist tests.
\<close>

definition startsWith :: "string \<Rightarrow> string \<Rightarrow> bool" where
  "startsWith s t = prefix t s"

definition includes_str :: "string \<Rightarrow> string \<Rightarrow> bool" where
  "includes_str s t = sublist t s"

text \<open>\<open>Array.prototype.join\<close>.\<close>

fun join :: "string \<Rightarrow> string list \<Rightarrow> string" where
  "join sep [] = []"
| "join sep [x] = x"
| "join sep (x # y # ys) = x @ sep @ join sep (y # ys)"

text \<open>
  \<open>a || d\<close> on an optional string: \<open>undefined\<close> and the empty string are falsy.
\<close>

fun truthy :: "string option \<Rightarrow> bool" where
  "truthy None = False"
| "truthy (Some s) = (s \<noteq> [])"

fun orElse :: "string option \<Rightarrow> string \<Rightarrow> string" where
  "orElse None d = d"
| "orElse (Some s) d = (if s = [] then d else s)"

text \<open>
  A \<open>Set<string>\<close> is the list of its elements in insertion order; a \<open>Map<string, V>\<close>
  is an association list in insertion order, where \<open>set\<close> on a present key replaces
  the value in place.
\<close>

definition Set_add :: "'a \<Rightarrow> 'a list \<Rightarrow> 'a list" where
  "Set_add x xs = (if x \<in> set xs then xs else xs @ [x])"

primrec Map_set :: "'k \<Rightarrow> 'v \<Rightarrow> ('k \<times> 'v) list \<Rightarrow> ('k \<times> 'v) list" where
  "Map_set k v [] = [(k, v)]"
| "Map_set k v (p # ps) = (if fst p = k then (k, v) # ps else p # Map_set k v ps)"

definition Map_has :: "'k \<Rightarrow> ('k \<times> 'v) list \<Rightarrow> bool" where
  "Map_has k m = (map_of m k \<noteq> None)"

definition Map_get :: "'k \<Rightarrow> ('k \<times> 'v) list \<Rightarrow> 'v option" where
  "Map_get k m = map_of m k"

definition Map_values :: "('k \<times> 'v) list \<Rightarrow> 'v list" where
  "Map_values m = map snd m"

text \<open>A thrown value: an \<open>Error\<close> with its message, or anything else with its
  \<open>String(...)\<close> rendering.\<close>

datatype exn = Error string | Thrown string

fun exn_message :: "exn \<Rightarrow> string" where
  "exn_message (Error m) = m"
| "exn_message (Thrown s) = s"


section \<open>Data model (DependencyResolver.ts, types/index.ts)\<close>

text \<open>The optional flags \<open>isDefault?\<close> and \<open>isNamespace?\<close> are only ever tested for
  truthiness, so an absent flag is \<open>False\<close>.\<close>

record ImportSpecifier =
  name :: string
  alias' :: "string option"
  isDefault :: bool
  isNamespace :: bool

record ImportInfo =
  module :: string
  specifiers :: "ImportSpecifier list"
  isRelative :: bool
  resolvedPath :: "string option"

record DependencyContext =
  imports' :: "ImportInfo list"
  usedIdentifiers :: "string list"
  missingIdentifiers :: "string list"
  resolvedModules :: "(string \<times> string) list"

record ProjectFile =
  path :: string
  content :: string

record CompilationResult =
  success :: bool
  code :: "string option"
  error :: "string option"
  warnings :: "string list option"


section \<open>The syntax tree read by the analyzer\<close>

text \<open>
  The part of the TypeScript syntax tree the walks look at. Children are listed in the
  order \<open>ts.forEachChild\<close> visits them. The name of a function or class declaration,
  and the names below an import or export clause, are children of their node; an
  \<open>Identifier\<close> among them is kept as its text. The imported name of an import
  specifier, and both names of an export specifier, are a \<open>ModuleExportName\<close>: an
  identifier or a string literal. A binding pattern (\<open>[a, b]\<close> or \<open>{a, b: c}\<close>) holds
  binding elements; a binding element has the children before its name (the rest token
  and the property name), its name, and its initializer. Every other kind of node is
  an \<open>OtherNode\<close> with its children.
\<close>

datatype module_export_name = IdentifierName string | StringLiteralName string

fun nameText :: "module_export_name \<Rightarrow> string" where
  "nameText (IdentifierName t) = t"
| "nameText (StringLiteralName t) = t"

datatype named_import_bindings =
    NamespaceImport string
  | NamedImports "(module_export_name option \<times> string) list"

datatype import_clause = ImportClause "string option" "named_import_bindings option"

datatype named_export_bindings =
    NamespaceExport module_export_name
  | NamedExports "(module_export_name option \<times> module_export_name) list"

datatype node =
    Identifier string
  | StringLiteral string
  | ExportKeyword
  | DefaultKeyword
  | VariableStatement "node list" "node list"
  | VariableDeclaration node "node list"
  | FunctionDeclaration "node list" "string option" "node list"
  | ClassDeclaration "node list" "string option" "node list"
  | PropertyAccessExpression node node
  | ImportDeclaration "import_clause option" node
  | ExportDeclaration "named_export_bindings option" "node option"
  | OtherNode "node list"
  | BindingPattern "node list"
  | BindingElement "node list" node "node list"

fun isPropertyAccessExpression :: "node option \<Rightarrow> bool" where
  "isPropertyAccessExpression (Some (PropertyAccessExpression _ _)) = True"
| "isPropertyAccessExpression _ = False"

text \<open>The identifiers of a specifier list \<open>{ a, b as c }\<close>, in child order
  (\<open>propertyName\<close>, then \<open>name\<close>). A string-literal name is not an identifier.\<close>

fun exportNameIdentifiers :: "module_export_name \<Rightarrow> string list" where
  "exportNameIdentifiers (IdentifierName t) = [t]"
| "exportNameIdentifiers (StringLiteralName t) = []"

fun importSpecifierIdentifiers ::
    "(module_export_name option \<times> string) list \<Rightarrow> string list" where
  "importSpecifierIdentifiers [] = []"
| "importSpecifierIdentifiers ((None, n) # es) = n # importSpecifierIdentifiers es"
| "importSpecifierIdentifiers ((Some p, n) # es) =
     exportNameIdentifiers p @ n # importSpecifierIdentifiers es"

fun exportSpecifierIdentifiers ::
    "(module_export_name option \<times> module_export_name) list \<Rightarrow> string list" where
  "exportSpecifierIdentifiers [] = []"
| "exportSpecifierIdentifiers ((None, n) # es) =
     exportNameIdentifiers n @ exportSpecifierIdentifiers es"
| "exportSpecifierIdentifiers ((Some p, n) # es) =
     exportNameIdentifiers p @ exportNameIdentifiers n @ exportSpecifierIdentifiers es"

fun importClauseIdentifiers :: "import_clause \<Rightarrow> string list" where
  "importClauseIdentifiers (ImportClause nm bindings) =
     (case nm of None \<Rightarrow> [] | Some n \<Rightarrow> [n]) @
     (case bindings of
        None \<Rightarrow> []
      | Some (NamespaceImport n) \<Rightarrow> [n]
      | Some (NamedImports es) \<Rightarrow> importSpecifierIdentifiers es)"

fun exportClauseIdentifiers :: "named_export_bindings \<Rightarrow> string list" where
  "exportClauseIdentifiers (NamespaceExport n) = exportNameIdentifiers n"
| "exportClauseIdentifiers (NamedExports es) = exportSpecifierIdentifiers es"

text \<open>All nodes of a tree in the order a pre-order walk
  (\<open>visit(node); ts.forEachChild(node, visit)\<close>) reaches them.\<close>

fun preorder :: "node \<Rightarrow> node list"
  and preorderEach :: "node list \<Rightarrow> node list" where
  "preorder (Identifier t) = [Identifier t]"
| "preorder (StringLiteral t) = [StringLiteral t]"
| "preorder ExportKeyword = [ExportKeyword]"
| "preorder DefaultKeyword = [DefaultKeyword]"
| "preorder (VariableStatement mods decls) =
     VariableStatement mods decls # preorderEach mods @ preorderEach decls"
| "preorder (VariableDeclaration nm rest) =
     VariableDeclaration nm rest # preorder nm @ preorderEach rest"
| "preorder (FunctionDeclaration mods nm rest) =
     FunctionDeclaration mods nm rest # preorderEach mods @ preorderEach rest"
| "preorder (ClassDeclaration mods nm rest) =
     ClassDeclaration mods nm rest # preorderEach mods @ preorderEach rest"
| "preorder (PropertyAccessExpression e nm) =
     PropertyAccessExpression e nm # preorder e @ preorder nm"
| "preorder (ImportDeclaration clause spec) =
     ImportDeclaration clause spec # preorder spec"
| "preorder (ExportDeclaration clause None) = [ExportDeclaration clause None]"
| "preorder (ExportDeclaration clause (Some spec)) =
     ExportDeclaration clause (Some spec) # preorder spec"
| "preorder (OtherNode cs) = OtherNode cs # preorderEach cs"
| "preorder (BindingPattern es) = BindingPattern es # preorderEach es"
| "preorder (BindingElement before nm after) =
     BindingElement before nm after # preorderEach before @ preorder nm @ preorderEach after"
| "preorderEach [] = []"
| "preorderEach (c # cs) = preorder c @ preorderEach cs"


section \<open>DependencyResolver: imports and identifiers\<close>

fun importSpecifierOf :: "module_export_name option \<times> string \<Rightarrow> ImportSpecifier" where
  "importSpecifierOf (None, n) =
     \<lparr>name = n, alias' = None, isDefault = False, isNamespace = False\<rparr>"
| "importSpecifierOf (Some p, n) =
     \<lparr>name = (if nameText p = [] then n else nameText p), alias' = Some n,
      isDefault = False, isNamespace = False\<rparr>"

fun importClauseSpecifiers :: "import_clause option \<Rightarrow> ImportSpecifier list" where
  "importClauseSpecifiers None = []"
| "importClauseSpecifiers (Some (ImportClause nm bindings)) =
     (case nm of
        None \<Rightarrow> []
      | Some n \<Rightarrow> [\<lparr>name = n, alias' = None, isDefault = True, isNamespace = False\<rparr>]) @
     (case bindings of
        None \<Rightarrow> []
      | Some (NamespaceImport n) \<Rightarrow>
          [\<lparr>name = n, alias' = None, isDefault = False, isNamespace = True\<rparr>]
      | Some (NamedImports es) \<Rightarrow> map importSpecifierOf es)"

fun importInfoOf :: "node \<Rightarrow> ImportInfo list" where
  "importInfoOf (ImportDeclaration clause (StringLiteral text)) =
     [\<lparr>module = text, specifiers = importClauseSpecifiers clause,
       isRelative = (startsWith text ''.'' \<or> startsWith text ''/''),
       resolvedPath = None\<rparr>]"
| "importInfoOf _ = []"

definition extractImports :: "node \<Rightarrow> ImportInfo list" where
  "extractImports sourceFile = concat (map importInfoOf (preorder sourceFile))"

text \<open>
  \<open>extractIdentifiers\<close>: the walk carries the node's parent and the pair
  \<open>(used, declared)\<close>. At each node the declaration test comes first, then the
  identifier test, then the children.
\<close>

fun useAll :: "string list \<Rightarrow> string list \<times> string list \<Rightarrow> string list \<times> string list" where
  "useAll [] s = s"
| "useAll (t # ts) (used, declared) = useAll ts (Set_add t used, declared)"

fun declare_name :: "string option \<Rightarrow> string list \<times> string list \<Rightarrow> string list \<times> string list" where
  "declare_name None s = s"
| "declare_name (Some t) (used, declared) = (used, Set_add t declared)"

fun use_name :: "string option \<Rightarrow> string list \<times> string list \<Rightarrow> string list \<times> string list" where
  "use_name None s = s"
| "use_name (Some t) (used, declared) = (Set_add t used, declared)"

fun identifierText :: "node \<Rightarrow> string option" where
  "identifierText (Identifier t) = Some t"
| "identifierText _ = None"

fun visitIdentifiers ::
    "node option \<Rightarrow> node \<Rightarrow> string list \<times> string list \<Rightarrow> string list \<times> string list"
  and visitIdentifiersEach ::
    "node option \<Rightarrow> node list \<Rightarrow> string list \<times> string list \<Rightarrow> string list \<times> string list"
  where
  "visitIdentifiers parent (Identifier t) s =
     (if isPropertyAccessExpression parent then s else use_name (Some t) s)"
| "visitIdentifiers parent (StringLiteral t) s = s"
| "visitIdentifiers parent ExportKeyword s = s"
| "visitIdentifiers parent DefaultKeyword s = s"
| "visitIdentifiers parent (VariableStatement mods decls) s =
     visitIdentifiersEach (Some (VariableStatement mods decls)) decls
       (visitIdentifiersEach (Some (VariableStatement mods decls)) mods s)"
| "visitIdentifiers parent (VariableDeclaration nm rest) s =
     visitIdentifiersEach (Some (VariableDeclaration nm rest)) rest
       (visitIdentifiers (Some (VariableDeclaration nm rest)) nm
          (declare_name (identifierText nm) s))"
| "visitIdentifiers parent (FunctionDeclaration mods nm rest) s =
     visitIdentifiersEach (Some (FunctionDeclaration mods nm rest)) rest
       (use_name nm
          (visitIdentifiersEach (Some (FunctionDeclaration mods nm rest)) mods
             (declare_name nm s)))"
| "visitIdentifiers parent (ClassDeclaration mods nm rest) s =
     visitIdentifiersEach (Some (ClassDeclaration mods nm rest)) rest
       (use_name nm
          (visitIdentifiersEach (Some (ClassDeclaration mods nm rest)) mods
             (declare_name nm s)))"
| "visitIdentifiers parent (PropertyAccessExpression e nm) s =
     visitIdentifiers (Some (PropertyAccessExpression e nm)) nm
       (visitIdentifiers (Some (PropertyAccessExpression e nm)) e s)"
| "visitIdentifiers parent (ImportDeclaration clause spec) s =
     visitIdentifiers (Some (ImportDeclaration clause spec)) spec
       (case clause of None \<Rightarrow> s | Some c \<Rightarrow> useAll (importClauseIdentifiers c) s)"
| "visitIdentifiers parent (ExportDeclaration clause spec) s =
     (let s' = (case clause of None \<Rightarrow> s | Some c \<Rightarrow> useAll (exportClauseIdentifiers c) s)
      in case spec of
           None \<Rightarrow> s'
         | Some m \<Rightarrow> visitIdentifiers (Some (ExportDeclaration clause spec)) m s')"
| "visitIdentifiers parent (OtherNode cs) s = visitIdentifiersEach (Some (OtherNode cs)) cs s"
| "visitIdentifiers parent (BindingPattern es) s =
     visitIdentifiersEach (Some (BindingPattern es)) es s"
| "visitIdentifiers parent (BindingElement before nm after) s =
     visitIdentifiersEach (Some (BindingElement before nm after)) after
       (visitIdentifiers (Some (BindingElement before nm after)) nm
          (visitIdentifiersEach (Some (BindingElement before nm after)) before s))"
| "visitIdentifiersEach parent [] s = s"
| "visitIdentifiersEach parent (c # cs) s =
     visitIdentifiersEach parent cs (visitIdentifiers parent c s)"

definition extractIdentifiers :: "node \<Rightarrow> string list \<times> string list" where
  "extractIdentifiers sourceFile = visitIdentifiers None sourceFile ([], [])"

definition builtins :: "string list" where
  "builtins =
     [''console'', ''window'', ''document'', ''process'', ''global'',
      ''Array'', ''Object'', ''String'', ''Number'', ''Boolean'', ''Date'',
      ''Promise'', ''Map'', ''Set'', ''Math'', ''JSON'', ''Error'',
      ''undefined'', ''null'', ''true'', ''false'']"

definition isBuiltinIdentifier :: "string \<Rightarrow> bool" where
  "isBuiltinIdentifier ident = (ident \<in> set builtins)"

text \<open>The loop \<open>for (const id of usedIdentifiers) ...\<close> of \<open>analyzeDependencies\<close>.\<close>

fun findMissing :: "string list \<Rightarrow> string list \<Rightarrow> string list \<Rightarrow> string list" where
  "findMissing [] declared missing = missing"
| "findMissing (ident # rest) declared missing =
     findMissing rest declared
       (if ident \<notin> set declared \<and> \<not> isBuiltinIdentifier ident
        then Set_add ident missing else missing)"




fun boundNames :: "node \<Rightarrow> string list"
  and boundNamesEach :: "node list \<Rightarrow> string list" where
  "boundNames (Identifier t) = [t]"
| "boundNames (BindingPattern es) = boundNamesEach es"
| "boundNames (BindingElement before nm after) = boundNames nm"
| "boundNames (StringLiteral t) = []"
| "boundNames ExportKeyword = []"
| "boundNames DefaultKeyword = []"
| "boundNames (VariableStatement mods decls) = []"
| "boundNames (VariableDeclaration nm rest) = []"
| "boundNames (FunctionDeclaration mods nm rest) = []"
| "boundNames (ClassDeclaration mods nm rest) = []"
| "boundNames (PropertyAccessExpression e nm) = []"
| "boundNames (ImportDeclaration clause spec) = []"
| "boundNames (ExportDeclaration clause spec) = []"
| "boundNames (OtherNode cs) = []"
| "boundNamesEach [] = []"
| "boundNamesEach (e # es) = boundNames e @ boundNamesEach es"




section \<open>DependencyResolver: module resolution\<close>

text \<open>
  What the code calls outside the repository: the TypeScript parser and module
  resolver, Node's \<open>require.resolve\<close> and \<open>path\<close>, \<open>JSON.stringify\<close> and the
  bundler. \<open>ts.resolveModuleName\<close> gives the resolved file name if there is a
  resolved module; \<open>require.resolve\<close> throws when it finds nothing.
  \<open>JSON_stringify\<close> is \<open>JSON.stringify(props, null, 2)\<close> on mock props it can render:
  props with a cycle or a \<open>BigInt\<close>, for which it throws, are outside the model.
\<close>

datatype OnResolveResult =
    FilePath string
  | Path string
  | External
  | Null

record BuildResult =
  errors :: "string list"
  buildWarnings :: "string list"
  outputFiles :: "string list option"

record 'p host =
  ts_createSourceFile :: "string \<Rightarrow> string \<Rightarrow> node"
  ts_resolveModuleName :: "string \<Rightarrow> string \<Rightarrow> exn + string option"
  require_resolve :: "string \<Rightarrow> string \<Rightarrow> exn + string"
  path_join :: "string \<Rightarrow> string \<Rightarrow> string"
  path_dirname :: "string \<Rightarrow> string"
  path_relative :: "string \<Rightarrow> string \<Rightarrow> string"
  JSON_stringify :: "'p \<Rightarrow> string"
  esbuild_build ::
    "string \<Rightarrow> string \<Rightarrow> (string \<Rightarrow> string \<Rightarrow> OnResolveResult) \<Rightarrow> exn + BuildResult"

text \<open>The resolver instance. \<open>tsProgram\<close> says whether a program was created from a
  \<open>tsconfig.json\<close>; its compiler options belong to \<open>ts_resolveModuleName\<close>.\<close>

record DependencyResolver =
  projectRoot :: string
  tsProgram :: bool
  moduleResolutionCache :: "(string \<times> string) list"

definition cacheKey :: "string \<Rightarrow> string option \<Rightarrow> string" where
  "cacheKey moduleName fromFile = moduleName @ '':'' @ orElse fromFile ''root''"

text \<open>The result of \<open>this.moduleResolutionCache.get(cacheKey) || null\<close>.\<close>

fun cachedOrNull :: "string option \<Rightarrow> string option" where
  "cachedOrNull None = None"
| "cachedOrNull (Some v) = (if v = [] then None else Some v)"

fun nodeResolveDir :: "'p host \<Rightarrow> DependencyResolver \<Rightarrow> string option \<Rightarrow> string" where
  "nodeResolveDir h self None = projectRoot self"
| "nodeResolveDir h self (Some f) = (if f = [] then projectRoot self else path_dirname h f)"

text \<open>The fallback \<open>require.resolve\<close>; its exception is the one the \<open>catch\<close> turns
  into \<open>null\<close>.\<close>

definition resolveWithNode ::
    "'p host \<Rightarrow> DependencyResolver \<Rightarrow> string \<Rightarrow> string option
      \<Rightarrow> string option \<times> DependencyResolver" where
  "resolveWithNode h self moduleName fromFile =
     (case require_resolve h moduleName (nodeResolveDir h self fromFile) of
        Inl e \<Rightarrow> (None, self)
      | Inr resolved \<Rightarrow>
          (Some resolved,
           self\<lparr>moduleResolutionCache :=
             Map_set (cacheKey moduleName fromFile) resolved (moduleResolutionCache self)\<rparr>))"

definition resolveModulePath ::
    "'p host \<Rightarrow> DependencyResolver \<Rightarrow> string \<Rightarrow> string option
      \<Rightarrow> string option \<times> DependencyResolver" where
  "resolveModulePath h self moduleName fromFile =
     (if Map_has (cacheKey moduleName fromFile) (moduleResolutionCache self)
      then (cachedOrNull (Map_get (cacheKey moduleName fromFile) (moduleResolutionCache self)),
            self)
      else if tsProgram self
      then (case ts_resolveModuleName h moduleName
                   (orElse fromFile (path_join h (projectRoot self) ''index.ts'')) of
              Inl e \<Rightarrow> (None, self)
            | Inr (Some resolvedFileName) \<Rightarrow>
                (Some resolvedFileName,
                 self\<lparr>moduleResolutionCache :=
                   Map_set (cacheKey moduleName fromFile) resolvedFileName
                     (moduleResolutionCache self)\<rparr>)
            | Inr None \<Rightarrow> resolveWithNode h self moduleName fromFile)
      else resolveWithNode h self moduleName fromFile)"

text \<open>The loop \<open>for (const imp of imports)\<close> of \<open>analyzeDependencies\<close>: it fills
  \<open>resolvedModules\<close> and sets \<open>resolvedPath\<close> on the imports it could resolve.\<close>

fun resolveImports ::
    "'p host \<Rightarrow> string option \<Rightarrow> ImportInfo list \<Rightarrow> DependencyResolver
      \<Rightarrow> (string \<times> string) list
      \<Rightarrow> ImportInfo list \<times> (string \<times> string) list \<times> DependencyResolver" where
  "resolveImports h filePath [] self rm = ([], rm, self)"
| "resolveImports h filePath (imp # imps) self rm =
     (case resolveModulePath h self (module imp) filePath of
        (resolved, self') \<Rightarrow>
          if truthy resolved
          then (case resolveImports h filePath imps self'
                       (Map_set (module imp) (orElse resolved []) rm) of
                  (imps', rm', self'') \<Rightarrow>
                    (imp\<lparr>resolvedPath := resolved\<rparr> # imps', rm', self''))
          else (case resolveImports h filePath imps self' rm of
                  (imps', rm', self'') \<Rightarrow> (imp # imps', rm', self'')))"

definition analyzeDependencies ::
    "'p host \<Rightarrow> DependencyResolver \<Rightarrow> string \<Rightarrow> string option
      \<Rightarrow> DependencyContext \<times> DependencyResolver" where
  "analyzeDependencies h self code' filePath =
     (let sourceFile = ts_createSourceFile h (orElse filePath ''snippet.tsx'') code';
          found = extractIdentifiers sourceFile;
          missing = findMissing (fst found) (snd found) []
      in case resolveImports h filePath (extractImports sourceFile) self [] of
           (imps, rm, self') \<Rightarrow>
             (\<lparr>imports' = imps, usedIdentifiers = fst found,
               missingIdentifiers = missing, resolvedModules = rm\<rparr>, self'))"


section \<open>DependencyResolver: import suggestions\<close>

text \<open>What \<open>extractExportsFromFile\<close> does at one node; the first branch of the
  \<open>if / else if\<close> chain whose test holds is the only one taken.\<close>

fun exportedDeclarator :: "node \<Rightarrow> (string \<times> string) list \<Rightarrow> (string \<times> string) list" where
  "exportedDeclarator (VariableDeclaration (Identifier t) rest) m = Map_set t ''named'' m"
| "exportedDeclarator _ m = m"

fun exportsAt :: "node \<Rightarrow> (string \<times> string) list \<Rightarrow> (string \<times> string) list" where
  "exportsAt (ExportDeclaration (Some (NamedExports es)) spec) m =
     fold (\<lambda>e. Map_set (nameText (snd e)) ''named'') es m"
| "exportsAt (FunctionDeclaration mods nm rest) m =
     (if ExportKeyword \<in> set mods
      then (case nm of Some t \<Rightarrow> Map_set t ''named'' m | None \<Rightarrow> m)
      else if DefaultKeyword \<in> set mods
      then (case nm of Some t \<Rightarrow> Map_set t ''default'' m | None \<Rightarrow> m)
      else m)"
| "exportsAt (ClassDeclaration mods nm rest) m =
     (if ExportKeyword \<in> set mods
      then (case nm of Some t \<Rightarrow> Map_set t ''named'' m | None \<Rightarrow> m)
      else if DefaultKeyword \<in> set mods
      then (case nm of Some t \<Rightarrow> Map_set t ''default'' m | None \<Rightarrow> m)
      else m)"
| "exportsAt (VariableStatement mods decls) m =
     (if ExportKeyword \<in> set mods then fold exportedDeclarator decls m else m)"
| "exportsAt _ m = m"

definition extractExportsFromFile :: "'p host \<Rightarrow> string \<Rightarrow> (string \<times> string) list" where
  "extractExportsFromFile h text =
     fold exportsAt (preorder (ts_createSourceFile h ''temp.ts'' text)) []"

definition commonMappings :: "(string \<times> (string \<times> bool) list) list" where
  "commonMappings =
     [(''React'', [(''react'', True)]),
      (''useState'', [(''react'', False)]),
      (''useEffect'', [(''react'', False)]),
      (''useContext'', [(''react'', False)]),
      (''useMemo'', [(''react'', False)]),
      (''useCallback'', [(''react'', False)]),
      (''useRef'', [(''react'', False)]),
      (''styled'', [(''styled-components'', True)]),
      (''css'', [(''@emotion/react'', False)]),
      (''clsx'', [(''clsx'', True)]),
      (''classNames'', [(''classnames'', True)]),
      (''axios'', [(''axios'', True)]),
      (''_'', [(''lodash'', True)]),
      (''moment'', [(''moment'', True)]),
      (''dayjs'', [(''dayjs'', True)])]"

text \<open>
  \<open>commonMappings[identifier] || []\<close> is a property read on an object literal: a name
  that is not in the table but is a property of \<open>Object.prototype\<close> reads a function
  (or the prototype object), which is truthy and not iterable. \<open>None\<close> stands for
  such a value; the \<open>for ... of\<close> over it throws a \<open>TypeError\<close>.
\<close>

definition objectPrototypeProperties :: "string list" where
  "objectPrototypeProperties =
     [''constructor'', ''__defineGetter__'', ''__defineSetter__'', ''hasOwnProperty'',
      ''__lookupGetter__'', ''__lookupSetter__'', ''isPrototypeOf'',
      ''propertyIsEnumerable'', ''toString'', ''valueOf'', ''__proto__'',
      ''toLocaleString'']"

definition getCommonPackagesForIdentifier :: "string \<Rightarrow> (string \<times> bool) list option" where
  "getCommonPackagesForIdentifier ident =
     (case map_of commonMappings ident of
        Some pkgs \<Rightarrow> Some pkgs
      | None \<Rightarrow> if ident \<in> set objectPrototypeProperties then None else Some [])"

fun projectFileImports ::
    "'p host \<Rightarrow> DependencyResolver \<Rightarrow> string \<Rightarrow> ProjectFile list \<Rightarrow> ImportInfo list" where
  "projectFileImports h self ident [] = []"
| "projectFileImports h self ident (file # files) =
     (let exports = extractExportsFromFile h (content file) in
      (if Map_has ident exports
       then [\<lparr>module = ''./'' @ path_relative h (projectRoot self) (path file),
              specifiers = [\<lparr>name = ident, alias' = None,
                              isDefault = (Map_get ident exports = Some ''default''),
                              isNamespace = False\<rparr>],
              isRelative = True, resolvedPath = Some (path file)\<rparr>]
       else []) @ projectFileImports h self ident files)"

definition packageImport :: "string \<Rightarrow> string \<times> bool \<Rightarrow> ImportInfo" where
  "packageImport ident pkg =
     \<lparr>module = fst pkg,
      specifiers = [\<lparr>name = ident, alias' = None, isDefault = snd pkg, isNamespace = False\<rparr>],
      isRelative = False, resolvedPath = None\<rparr>"

fun suggestImportsForIdentifiers ::
    "'p host \<Rightarrow> DependencyResolver \<Rightarrow> string list \<Rightarrow> ProjectFile list
      \<Rightarrow> (string \<times> ImportInfo list) list \<Rightarrow> exn + (string \<times> ImportInfo list) list" where
  "suggestImportsForIdentifiers h self [] projectFiles suggestions = Inr suggestions"
| "suggestImportsForIdentifiers h self (ident # rest) projectFiles suggestions =
     (case getCommonPackagesForIdentifier ident of
        None \<Rightarrow> Inl (Error ''commonPackages is not iterable'')
      | Some commonPackages \<Rightarrow>
          (let possibleImports =
                 projectFileImports h self ident projectFiles @
                 map (packageImport ident) commonPackages
           in suggestImportsForIdentifiers h self rest projectFiles
                (if possibleImports \<noteq> [] then Map_set ident possibleImports suggestions
                 else suggestions)))"


section \<open>SmartCompiler: assembly\<close>

definition nl :: string where
  "nl = [CHR 0x0A]"

definition sq :: string where
  "sq = [CHR 0x27]"

record 'p SmartCompileOptions =
  code :: string
  filePath :: "string option"
  mockProps :: "'p option"
  additionalImports :: "ImportInfo list option"
  wrapComponent :: "bool option"

record 'p GenerateOptions =
  code :: string
  existingImports :: "ImportInfo list"
  suggestedImports :: "ImportInfo list"
  additionalImports :: "ImportInfo list"
  mockProps :: "'p option"
  wrapComponent :: "bool option"

definition namedSpecifierText :: "ImportSpecifier \<Rightarrow> string" where
  "namedSpecifierText s =
     (if truthy (alias' s) then name s @ '' as '' @ orElse (alias' s) [] else name s)"

text \<open>The \<open>specifierParts\<close> array the source fills first is never read and is left
  out.\<close>

definition generateImportStatement :: "ImportInfo \<Rightarrow> string" where
  "generateImportStatement imp =
     (let defaultImport = find isDefault (specifiers imp);
          namedImports = filter (\<lambda>s. \<not> isDefault s \<and> \<not> isNamespace s) (specifiers imp);
          namespaceImport = find isNamespace (specifiers imp);
          braces = ''{ '' @ join '', '' (map namedSpecifierText namedImports) @ '' }'';
          importClause =
            (case defaultImport of
               Some d \<Rightarrow> name d @ (if namedImports \<noteq> [] then '', '' @ braces else [])
             | None \<Rightarrow>
                 (case namespaceImport of
                    Some n \<Rightarrow> ''* as '' @ name n
                  | None \<Rightarrow> if namedImports \<noteq> [] then braces else []))
      in ''import '' @ importClause @ '' from '' @ sq @ module imp @ sq @ '';'')"

definition importKey :: "ImportInfo \<Rightarrow> string" where
  "importKey imp = module imp @ '':'' @ join '','' (map name (specifiers imp))"

definition mergeImports :: "ImportInfo list \<Rightarrow> (string \<times> ImportInfo) list" where
  "mergeImports imps = fold (\<lambda>imp. Map_set (importKey imp) imp) imps []"

definition isReactDefaultImport :: "ImportInfo \<Rightarrow> bool" where
  "isReactDefaultImport imp =
     (module imp = ''react'' \<and>
      list_ex (\<lambda>s. isDefault s \<and> name s = ''React'') (specifiers imp))"

definition reactImport :: ImportInfo where
  "reactImport =
     \<lparr>module = ''react'',
      specifiers = [\<lparr>name = ''React'', alias' = None, isDefault = True, isNamespace = False\<rparr>],
      isRelative = False, resolvedPath = None\<rparr>"

text \<open>The map \<open>allImports\<close> of \<open>generateFullCode\<close> after the React step.\<close>

definition allImports ::
    "ImportInfo list \<Rightarrow> ImportInfo list \<Rightarrow> ImportInfo list \<Rightarrow> (string \<times> ImportInfo) list" where
  "allImports existing suggested additional =
     (let merged = mergeImports (existing @ suggested @ additional);
          hasReact = list_ex isReactDefaultImport (Map_values merged)
      in if \<not> hasReact then Map_set ''react:React'' reactImport merged else merged)"


text \<open>
  The pattern \<open>/(?:export\s+)?(?:default\s+)?(?:function|const|class)\s+(\w+)/\<close>.
  \<open>\w\<close> is \<open>[A-Za-z0-9_]\<close>; \<open>\s\<close>, below code unit 256, is tab, line feed,
  vertical tab, form feed, carriage return, space and no-break space. At a given start
  the pattern can match in one way only: each optional group is taken exactly when its
  keyword and at least one white-space character are there, every \<open>\s+\<close> takes the whole
  run of white space (what follows starts with a letter), and \<open>(\w+)\<close> is greedy.
\<close>

definition isWordChar :: "char \<Rightarrow> bool" where
  "isWordChar c =
     (let n = (of_char c :: nat)
      in (48 \<le> n \<and> n \<le> 57) \<or> (65 \<le> n \<and> n \<le> 90) \<or> n = 95 \<or> (97 \<le> n \<and> n \<le> 122))"

definition isSpaceChar :: "char \<Rightarrow> bool" where
  "isSpaceChar c = (let n = (of_char c :: nat) in (9 \<le> n \<and> n \<le> 13) \<or> n = 32 \<or> n = 160)"

text \<open>\<open>kw\s+\<close> at the start of \<open>s\<close>: the rest of \<open>s\<close> after the match.\<close>

definition keywordThenSpace :: "string \<Rightarrow> string \<Rightarrow> string option" where
  "keywordThenSpace kw s =
     (if startsWith s kw \<and> takeWhile isSpaceChar (drop (length kw) s) \<noteq> []
      then Some (dropWhile isSpaceChar (drop (length kw) s))
      else None)"

definition optionalKeyword :: "string \<Rightarrow> string \<Rightarrow> string" where
  "optionalKeyword kw s = (case keywordThenSpace kw s of Some r \<Rightarrow> r | None \<Rightarrow> s)"

definition declarationKeyword :: "string \<Rightarrow> string option" where
  "declarationKeyword s =
     (case keywordThenSpace ''function'' s of
        Some r \<Rightarrow> Some r
      | None \<Rightarrow>
          (case keywordThenSpace ''const'' s of
             Some r \<Rightarrow> Some r
           | None \<Rightarrow> keywordThenSpace ''class'' s))"

definition matchComponentAt :: "string \<Rightarrow> string option" where
  "matchComponentAt s =
     (case declarationKeyword (optionalKeyword ''default'' (optionalKeyword ''export'' s)) of
        None \<Rightarrow> None
      | Some r \<Rightarrow> if takeWhile isWordChar r = [] then None else Some (takeWhile isWordChar r))"

text \<open>\<open>code.match(...)\<close>: the capture group of the leftmost match.\<close>

fun componentMatch :: "string \<Rightarrow> string option" where
  "componentMatch [] = matchComponentAt []"
| "componentMatch (c # cs) =
     (case matchComponentAt (c # cs) of
        Some w \<Rightarrow> Some w
      | None \<Rightarrow> componentMatch cs)"

definition componentNameOf :: "string \<Rightarrow> string" where
  "componentNameOf text = (case componentMatch text of Some w \<Rightarrow> w | None \<Rightarrow> ''Component'')"

definition previewWrapper :: "string \<Rightarrow> string \<Rightarrow> string \<Rightarrow> string" where
  "previewWrapper text propsJson componentName =
     join nl
       [[],
        text,
        [],
        ''// Auto-generated preview wrapper'',
        ''export default function PreviewWrapper() {'',
        ''  const mockProps = '' @ propsJson @ '';'',
        ''  '',
        ''  try {'',
        ''    return <'' @ componentName @ '' {...mockProps} />;'',
        ''  } catch (error) {'',
        ''    return ('',
        ''      <div style={{ '',
        ''        color: '' @ sq @ ''red'' @ sq @ '', '',
        ''        padding: '' @ sq @ ''20px'' @ sq @ '', '',
        ''        border: '' @ sq @ ''1px solid red'' @ sq @ '','',
        ''        borderRadius: '' @ sq @ ''4px'' @ sq @ '','',
        ''        backgroundColor: '' @ sq @ ''#ffebee'' @ sq,
        ''      }}>'',
        ''        <h3>Component Error</h3>'',
        ''        <pre>{error.message}</pre>'',
        ''      </div>'',
        ''    );'',
        ''  }'',
        ''}'',
        []]"

definition wrapComponentCode :: "'p host \<Rightarrow> string \<Rightarrow> 'p option \<Rightarrow> string" where
  "wrapComponentCode h text props =
     (let componentName = componentNameOf text in
      if includes_str text ''export default'' \<or> includes_str text ''export {''
      then text
      else previewWrapper text
             (case props of Some p \<Rightarrow> JSON_stringify h p | None \<Rightarrow> ''{}'')
             componentName)"

definition generateFullCode :: "'p host \<Rightarrow> 'p GenerateOptions \<Rightarrow> string" where
  "generateFullCode h options =
     (let importStatements =
            join nl (map generateImportStatement
              (Map_values (allImports (existingImports options) (suggestedImports options)
                 (additionalImports options))));
          componentCode =
            (if wrapComponent options \<noteq> Some False
             then wrapComponentCode h (code options) (mockProps options)
             else code options)
      in nl @ importStatements @ nl @ nl @ componentCode @ nl)"

text \<open>The \<open>onResolve\<close> callback installed by \<open>createResolvePlugin\<close>, applied to
  \<open>args.path\<close> and \<open>args.resolveDir\<close>. \<open>Null\<close> leaves the path to the bundler.\<close>

definition createResolvePlugin ::
    "'p host \<Rightarrow> (string \<times> string) list \<Rightarrow> string \<Rightarrow> string \<Rightarrow> OnResolveResult" where
  "createResolvePlugin h resolved argsPath resolveDir =
     (case Map_get argsPath resolved of
        Some p \<Rightarrow> FilePath p
      | None \<Rightarrow>
          if \<not> startsWith argsPath ''.'' \<and> \<not> startsWith argsPath ''/''
          then (case require_resolve h argsPath resolveDir of
                  Inr r \<Rightarrow> Path r
                | Inl e \<Rightarrow> External)
          else Null)"


section \<open>SmartCompiler: compile\<close>

text \<open>The compiler instance; \<open>compilerRoot\<close> is its \<open>projectRoot\<close> field and
  \<open>projectFiles\<close> the files of its code context.\<close>

record SmartCompiler =
  dependencyResolver :: DependencyResolver
  projectFiles :: "ProjectFile list"
  compilerRoot :: string

text \<open>\<open>suggestedImports.push(imports[0])\<close> for every entry of the suggestion map.\<close>

fun firstSuggestions :: "(string \<times> ImportInfo list) list \<Rightarrow> ImportInfo list" where
  "firstSuggestions [] = []"
| "firstSuggestions ((ident, []) # rest) = firstSuggestions rest"
| "firstSuggestions ((ident, imp # imps) # rest) = imp # firstSuggestions rest"

definition failure :: "string \<Rightarrow> CompilationResult" where
  "failure message =
     \<lparr>success = False, CompilationResult.code = None, error = Some message, warnings = None\<rparr>"

text \<open>What follows \<open>await esbuild.build(...)\<close> inside the \<open>try\<close>; reading
  \<open>result.outputFiles![0].text\<close> throws a \<open>TypeError\<close> when there is no first file.\<close>

definition buildOutcome :: "BuildResult \<Rightarrow> exn + CompilationResult" where
  "buildOutcome result =
     (if errors result \<noteq> []
      then Inr (failure (join nl (errors result)))
      else (case outputFiles result of
              Some (file # files) \<Rightarrow>
                Inr \<lparr>success = True, CompilationResult.code = Some file, error = None,
                     warnings = Some (buildWarnings result)\<rparr>
            | _ \<Rightarrow>
                Inl (Error (''Cannot read properties of undefined (reading '' @ sq @
                            ''text'' @ sq @ '')''))))"

text \<open>The steps of the \<open>try\<close> block of \<open>compile\<close> after the analysis. Step 2: the
  imports suggested for the missing identifiers, the first suggestion of each.\<close>

definition suggestedFor ::
    "'p host \<Rightarrow> SmartCompiler \<Rightarrow> DependencyContext \<Rightarrow> DependencyResolver
      \<Rightarrow> exn + ImportInfo list" where
  "suggestedFor h self depContext resolver =
     (if missingIdentifiers depContext \<noteq> []
      then (case suggestImportsForIdentifiers h resolver (missingIdentifiers depContext)
                   (projectFiles self) [] of
              Inl e \<Rightarrow> Inl e
            | Inr suggestions \<Rightarrow> Inr (firstSuggestions suggestions))
      else Inr [])"

text \<open>Step 3: the unit, from the options, the analysed imports and the suggested ones.\<close>

definition fullCodeFor ::
    "'p host \<Rightarrow> 'p SmartCompileOptions \<Rightarrow> DependencyContext \<Rightarrow> ImportInfo list \<Rightarrow> string" where
  "fullCodeFor h options depContext suggested =
     generateFullCode h
       \<lparr>code = SmartCompileOptions.code options,
        existingImports = imports' depContext,
        suggestedImports = suggested,
        additionalImports =
          (case SmartCompileOptions.additionalImports options of
             Some imps \<Rightarrow> imps | None \<Rightarrow> []),
        mockProps = SmartCompileOptions.mockProps options,
        wrapComponent = SmartCompileOptions.wrapComponent options\<rparr>"

text \<open>Step 4: the build of the unit, resolving from the directory of the fragment's file
  or from the project root, with the resolve hook over the resolved modules.\<close>

definition buildFor ::
    "'p host \<Rightarrow> SmartCompiler \<Rightarrow> 'p SmartCompileOptions \<Rightarrow> DependencyContext \<Rightarrow> string
      \<Rightarrow> exn + BuildResult" where
  "buildFor h self options depContext fullCode =
     esbuild_build h fullCode
       (case filePath options of
          None \<Rightarrow> compilerRoot self
        | Some f \<Rightarrow> if f = [] then compilerRoot self else path_dirname h f)
       (createResolvePlugin h (resolvedModules depContext))"

text \<open>The body of the \<open>try\<close> block after the analysis: a step that throws ends it.\<close>

definition compileWith ::
    "'p host \<Rightarrow> SmartCompiler \<Rightarrow> 'p SmartCompileOptions \<Rightarrow> DependencyContext
      \<Rightarrow> DependencyResolver \<Rightarrow> exn + CompilationResult" where
  "compileWith h self options depContext resolver =
     (case suggestedFor h self depContext resolver of
        Inl e \<Rightarrow> Inl e
      | Inr suggested \<Rightarrow>
          (case buildFor h self options depContext
                  (fullCodeFor h options depContext suggested) of
             Inl e \<Rightarrow> Inl e
           | Inr result \<Rightarrow> buildOutcome result))"

text \<open>\<open>compile\<close>: the \<open>catch\<close> turns whatever the body throws into a failed
  result. The resolver's cache keeps what the analysis stored in either case.\<close>

definition compile ::
    "'p host \<Rightarrow> SmartCompiler \<Rightarrow> 'p SmartCompileOptions
      \<Rightarrow> exn + CompilationResult \<times> SmartCompiler" where
  "compile h self options =
     (case analyzeDependencies h (dependencyResolver self)
             (SmartCompileOptions.code options) (filePath options) of
        (depContext, resolver) \<Rightarrow>
          (case compileWith h self options depContext resolver of
             Inl e \<Rightarrow> Inr (failure (exn_message e), self\<lparr>dependencyResolver := resolver\<rparr>)
           | Inr result \<Rightarrow> Inr (result, self\<lparr>dependencyResolver := resolver\<rparr>)))"


section \<open>Concrete inputs\<close>

text \<open>A host in which only \<open>react\<close> resolves and every build is rejected, and a
  resolver for a project without a \<open>tsconfig.json\<close>, before and after \<open>react\<close> was
  resolved.\<close>

definition exampleHost :: "unit host" where
  "exampleHost =
     \<lparr>ts_createSourceFile = (\<lambda>fileName text. OtherNode []),
      ts_resolveModuleName = (\<lambda>moduleName containingFile. Inr None),
      require_resolve = (\<lambda>request dir.
        if request = ''react'' then Inr ''/proj/node_modules/react/index.js''
        else Inl (Error ''Cannot find module'')),
      path_join = (\<lambda>a b. a @ ''/'' @ b),
      path_dirname = (\<lambda>p. ''/proj/src''),
      path_relative = (\<lambda>a b. b),
      JSON_stringify = (\<lambda>p. ''{}''),
      esbuild_build = (\<lambda>contents resolveDir onResolve. Inl (Error ''Build failed''))\<rparr>"

definition exampleResolver :: DependencyResolver where
  "exampleResolver = \<lparr>projectRoot = ''/proj'', tsProgram = False, moduleResolutionCache = []\<rparr>"

definition cachedResolver :: DependencyResolver where
  "cachedResolver =
     \<lparr>projectRoot = ''/proj'', tsProgram = False,
      moduleResolutionCache = [(''react:root'', ''/proj/node_modules/react/index.js'')]\<rparr>"


text \<open>Imports, assembly options and the invariant of the merged import map used
  below.\<close>

definition keyed :: "(string \<times> ImportInfo) list \<Rightarrow> bool" where
  "keyed m = (distinct (map fst m) \<and> (\<forall>(k, v) \<in> set m. k = importKey v))"

definition named :: "string \<Rightarrow> ImportSpecifier" where
  "named n = \<lparr>name = n, alias' = None, isDefault = False, isNamespace = False\<rparr>"

definition importAB :: ImportInfo where
  "importAB = \<lparr>module = ''m'', specifiers = [named ''a'', named ''b''],
               isRelative = False, resolvedPath = None\<rparr>"

definition importBA :: ImportInfo where
  "importBA = \<lparr>module = ''m'', specifiers = [named ''b'', named ''a''],
               isRelative = False, resolvedPath = None\<rparr>"

definition importA :: ImportInfo where
  "importA = \<lparr>module = ''m'', specifiers = [named ''a''],
              isRelative = False, resolvedPath = None\<rparr>"

definition importAasX :: ImportInfo where
  "importAasX = \<lparr>module = ''m'', specifiers = [(named ''a'')\<lparr>alias' := Some ''x''\<rparr>],
                 isRelative = False, resolvedPath = None\<rparr>"

text \<open>The last import with a given key among the sources.\<close>

definition lastWithKey :: "string \<Rightarrow> ImportInfo list \<Rightarrow> ImportInfo option" where
  "lastWithKey k imps = find (\<lambda>i. importKey i = k) (rev imps)"

definition repeatedImport :: "unit GenerateOptions" where
  "repeatedImport =
     \<lparr>code = ''function Greet() {}'', existingImports = [importA], suggestedImports = [],
      additionalImports = [importA], mockProps = None, wrapComponent = None\<rparr>"


definition exportedCounter :: "unit GenerateOptions" where
  "exportedCounter =
     \<lparr>code = ''export default function Counter() {}'', existingImports = [],
      suggestedImports = [], additionalImports = [], mockProps = Some (),
      wrapComponent = Some True\<rparr>"



text \<open>Example 2 of the specification: the fragment, its syntax tree, a host that
  parses it and whose bundler returns the unit it is given, and the unit the compiler
  assembles for it.\<close>

definition counterFragment :: string where
  "counterFragment =
     ''import {useState} from '' @ sq @ ''state-lib'' @ sq @
     ''; export default function Counter(){ return useState(0); }''"

definition counterSourceFile :: node where
  "counterSourceFile =
     OtherNode
       [ImportDeclaration
          (Some (ImportClause None (Some (NamedImports [(None, ''useState'')]))))
          (StringLiteral ''state-lib''),
        FunctionDeclaration [ExportKeyword, DefaultKeyword] (Some ''Counter'')
          [OtherNode [OtherNode [OtherNode [Identifier ''useState'', OtherNode []]]]],
        OtherNode []]"

definition counterHost :: "unit host" where
  "counterHost =
     exampleHost
       \<lparr>ts_createSourceFile :=
          (\<lambda>fileName text. if text = counterFragment then counterSourceFile else OtherNode []),
        esbuild_build :=
          (\<lambda>contents resolveDir onResolve.
             Inr \<lparr>errors = [], buildWarnings = [], outputFiles = Some [contents]\<rparr>)\<rparr>"

definition exampleCompiler :: SmartCompiler where
  "exampleCompiler =
     \<lparr>dependencyResolver = exampleResolver, projectFiles = [], compilerRoot = ''/proj''\<rparr>"

definition counterOptions :: "unit SmartCompileOptions" where
  "counterOptions =
     \<lparr>SmartCompileOptions.code = counterFragment, filePath = None,
      SmartCompileOptions.mockProps = None,
      SmartCompileOptions.additionalImports = None,
      SmartCompileOptions.wrapComponent = None\<rparr>"

definition stateLibImport :: ImportInfo where
  "stateLibImport =
     \<lparr>module = ''state-lib'', specifiers = [named ''useState''],
      isRelative = False, resolvedPath = None\<rparr>"

definition counterUnit :: string where
  "counterUnit =
     nl @ ''import { useState } from '' @ sq @ ''state-lib'' @ sq @ '';'' @
     nl @ ''import { useState } from '' @ sq @ ''react'' @ sq @ '';'' @
     nl @ ''import React from '' @ sq @ ''react'' @ sq @ '';'' @
     nl @ nl @ counterFragment @ nl"

definition reactUseState :: ImportInfo where
  "reactUseState = packageImport ''useState'' (''react'', False)"












definition counterContext :: DependencyContext where
  "counterContext =
     \<lparr>imports' = [stateLibImport], usedIdentifiers = [''useState'', ''Counter''],
      missingIdentifiers = [''useState''], resolvedModules = []\<rparr>"
















section \<open>Properties of the analyzer\<close>
















text \<open>
  C6. The specification puts the object identifier of a member expression among the used
  identifiers. For the statement \<open>axios.get;\<close> (source file, expression statement,
  property access) the walk records nothing: both identifiers have the property access
  as their parent, so neither the property name nor the object \<open>axios\<close> is used.
\<close>

theorem extractIdentifiers_member_object_not_used:
  "extractIdentifiers
     (OtherNode [OtherNode [PropertyAccessExpression (Identifier ''axios'') (Identifier ''get'')]])
   = ([], [])"
  by (simp add: extractIdentifiers_def)


section \<open>Properties of the module resolver\<close>

lemma ex_unknown:
  "resolveModulePath exampleHost exampleResolver ''totally-unknown-pkg'' None = (None, exampleResolver)"
  by (simp add: resolveModulePath_def resolveWithNode_def exampleHost_def exampleResolver_def Map_has_def cacheKey_def)

lemma ex_react:
  "resolveModulePath exampleHost exampleResolver ''react'' None =
    (Some ''/proj/node_modules/react/index.js'',
     exampleResolver\<lparr>moduleResolutionCache := [(''react:root'', ''/proj/node_modules/react/index.js'')]\<rparr>)"
  by (simp add: resolveModulePath_def resolveWithNode_def exampleHost_def exampleResolver_def Map_has_def cacheKey_def)

lemma resolveWithNode_shape:
  "resolveWithNode h self m f = (None, self) \<or>
   (\<exists>p. resolveWithNode h self m f =
      (Some p, self\<lparr>moduleResolutionCache :=
                 Map_set (cacheKey m f) p (moduleResolutionCache self)\<rparr>))"
  by (simp add: resolveWithNode_def split: sum.splits)

lemma resolveModulePath_shape:
  "(\<exists>r. resolveModulePath h self m f = (r, self) \<and>
        (Map_has (cacheKey m f) (moduleResolutionCache self) \<or> r = None)) \<or>
   (\<exists>p. resolveModulePath h self m f =
      (Some p, self\<lparr>moduleResolutionCache :=
                 Map_set (cacheKey m f) p (moduleResolutionCache self)\<rparr>))"
proof (cases "Map_has (cacheKey m f) (moduleResolutionCache self)")
  case True
  then show ?thesis by (simp add: resolveModulePath_def)
next
  case False
  note miss = this
  show ?thesis
  proof (cases "tsProgram self")
    case True
    show ?thesis
    proof (cases "ts_resolveModuleName h m
                    (orElse f (path_join h (projectRoot self) ''index.ts''))")
      case (Inl e)
      with miss True show ?thesis by (simp add: resolveModulePath_def)
    next
      case (Inr r)
      show ?thesis
      proof (cases r)
        case None
        with miss True Inr have "resolveModulePath h self m f = resolveWithNode h self m f"
          by (simp add: resolveModulePath_def)
        with resolveWithNode_shape [of h self m f] show ?thesis by auto
      next
        case (Some p)
        with miss True Inr show ?thesis by (simp add: resolveModulePath_def)
      qed
    qed
  next
    case False
    with miss have "resolveModulePath h self m f = resolveWithNode h self m f"
      by (simp add: resolveModulePath_def)
    with resolveWithNode_shape [of h self m f] show ?thesis by auto
  qed
qed

lemma resolveModulePath_None_unchanged:
  assumes "fst (resolveModulePath h self m f) = None"
  shows "snd (resolveModulePath h self m f) = self"
  using resolveModulePath_shape [of h self m f] assms by auto

lemma resolveModulePath_cached:
  assumes "Map_get (cacheKey m f) (moduleResolutionCache self) = Some p" and "p \<noteq> []"
  shows "resolveModulePath h self m f = (Some p, self)"
  using assms by (simp add: resolveModulePath_def Map_has_def Map_get_def)

text \<open>
  C10. Only successful resolutions are stored. A call that returns \<open>null\<close> leaves the
  resolver, and so its cache, as it was, hence a later call for the same specifier runs
  the resolution again, under whatever the host then answers. A call changes the
  resolver only by storing the path it returns under the cache key. A cached path is
  returned whatever the host would answer.
\<close>

theorem resolveModulePath_failure_not_cached:
  "(fst (resolveModulePath h self m f) = None \<longrightarrow>
      snd (resolveModulePath h self m f) = self \<and>
      resolveModulePath h2 (snd (resolveModulePath h self m f)) m f = resolveModulePath h2 self m f) \<and>
   (snd (resolveModulePath h self m f) \<noteq> self \<longrightarrow>
      (\<exists>p. fst (resolveModulePath h self m f) = Some p \<and>
           snd (resolveModulePath h self m f) =
             self\<lparr>moduleResolutionCache := Map_set (cacheKey m f) p (moduleResolutionCache self)\<rparr>)) \<and>
   (Map_get (cacheKey m f) (moduleResolutionCache self) = Some p \<and> p \<noteq> [] \<longrightarrow>
      resolveModulePath h2 self m f = (Some p, self))"
proof (intro conjI impI)
  assume "fst (resolveModulePath h self m f) = None"
  then show "snd (resolveModulePath h self m f) = self"
    by (rule resolveModulePath_None_unchanged)
  then show "resolveModulePath h2 (snd (resolveModulePath h self m f)) m f =
             resolveModulePath h2 self m f"
    by simp
next
  assume "snd (resolveModulePath h self m f) \<noteq> self"
  with resolveModulePath_shape [of h self m f]
  show "\<exists>p. fst (resolveModulePath h self m f) = Some p \<and>
           snd (resolveModulePath h self m f) =
             self\<lparr>moduleResolutionCache := Map_set (cacheKey m f) p (moduleResolutionCache self)\<rparr>"
    by auto
next
  assume "Map_get (cacheKey m f) (moduleResolutionCache self) = Some p \<and> p \<noteq> []"
  then show "resolveModulePath h2 self m f = (Some p, self)"
    by (simp add: resolveModulePath_cached)
qed

theorem resolveModulePath_failure_not_cached_witness:
  "fst (resolveModulePath exampleHost exampleResolver ''totally-unknown-pkg'' None) = None
   \<and> snd (resolveModulePath exampleHost exampleResolver ''totally-unknown-pkg'' None) = exampleResolver
   \<and> snd (resolveModulePath exampleHost exampleResolver ''react'' None) \<noteq> exampleResolver
   \<and> fst (resolveModulePath exampleHost exampleResolver ''react'' None)
       = Some ''/proj/node_modules/react/index.js''
   \<and> Map_get (cacheKey ''react'' None) (moduleResolutionCache cachedResolver)
       = Some ''/proj/node_modules/react/index.js''
   \<and> resolveModulePath exampleHost cachedResolver ''react'' None
       = (Some ''/proj/node_modules/react/index.js'', cachedResolver)"
proof -
  have a: "fst (resolveModulePath exampleHost exampleResolver ''totally-unknown-pkg'' None) = None"
    by (simp add: ex_unknown)
  have b: "snd (resolveModulePath exampleHost exampleResolver ''react'' None) \<noteq> exampleResolver"
    by (simp add: ex_react) (simp add: exampleResolver_def)
  have c: "Map_get (cacheKey ''react'' None) (moduleResolutionCache cachedResolver)
       = Some ''/proj/node_modules/react/index.js''"
    by (simp add: Map_get_def cacheKey_def cachedResolver_def)
  have d: "fst (resolveModulePath exampleHost exampleResolver ''react'' None)
       = Some ''/proj/node_modules/react/index.js''"
    by (simp add: ex_react)
  show ?thesis
    using resolveModulePath_failure_not_cached
            [of exampleHost exampleResolver "''totally-unknown-pkg''" None exampleHost]
          resolveModulePath_failure_not_cached
            [of exampleHost exampleResolver "''react''" None]
          resolveModulePath_failure_not_cached
            [of exampleHost cachedResolver "''react''" None exampleHost
                "''/proj/node_modules/react/index.js''"]
          a b c d
    by simp
qed


section \<open>Properties of the import merge\<close>

lemma Map_set_map_of: "map_of (Map_set k v m) = (map_of m)(k \<mapsto> v)"
  by (induction m) (auto simp: fun_eq_iff)

lemma Map_set_keys:
  "map fst (Map_set k v m) = (if k \<in> set (map fst m) then map fst m else map fst m @ [k])"
  by (induction m) auto

lemma Map_set_distinct: "distinct (map fst m) \<Longrightarrow> distinct (map fst (Map_set k v m))"
  by (simp add: Map_set_keys)

lemma Map_set_values: "set (Map_set k v m) \<subseteq> insert (k, v) (set m)"
  by (induction m) auto

lemma Map_set_member: "distinct (map fst m) \<Longrightarrow> (k, v) \<in> set (Map_set k v m)"
  by (induction m) auto


lemma keyed_Map_set: "keyed m \<Longrightarrow> keyed (Map_set (importKey imp) imp m)"
  using Map_set_values [of "importKey imp" imp m]
  by (auto simp: keyed_def Map_set_distinct)

lemma keyed_fold: "keyed m \<Longrightarrow> keyed (fold (\<lambda>imp. Map_set (importKey imp) imp) imps m)"
  by (induction imps arbitrary: m) (auto simp: keyed_Map_set)

lemma keyed_mergeImports: "keyed (mergeImports imps)"
  unfolding mergeImports_def by (rule keyed_fold) (simp add: keyed_def)

lemma importKey_reactImport: "importKey reactImport = ''react:React''"
  by (simp add: importKey_def reactImport_def)

lemma keyed_allImports: "keyed (allImports existing suggested additional)"
  using keyed_Map_set [OF keyed_mergeImports, of reactImport]
  by (simp add: allImports_def Let_def keyed_mergeImports importKey_reactImport)

lemma keyed_values: "keyed m \<Longrightarrow> map importKey (Map_values m) = map fst m"
  by (induction m) (auto simp: keyed_def Map_values_def)




lemma fold_last_wins:
  "\<forall>j \<in> set post. importKey j \<noteq> k \<Longrightarrow>
     map_of (fold (\<lambda>imp. Map_set (importKey imp) imp) post m) k = map_of m k"
  by (induction post arbitrary: m) (auto simp: Map_set_map_of)

lemma mergeImports_last_wins:
  assumes "\<forall>j \<in> set post. importKey j \<noteq> importKey imp"
  shows "Map_get (importKey imp) (mergeImports (pre @ imp # post)) = Some imp"
  using fold_last_wins [OF assms]
  by (simp add: mergeImports_def Map_get_def Map_set_map_of)





lemma Map_set_key_list: "map fst (Map_set k v m) = Set_add k (map fst m)"
  by (simp add: Map_set_keys Set_add_def)

lemma fold_key_list:
  "map fst (fold (\<lambda>imp. Map_set (importKey imp) imp) imps m) =
     fold Set_add (map importKey imps) (map fst m)"
  by (induction imps arbitrary: m) (simp_all add: Map_set_key_list)

lemma mergeImports_key_list: "map fst (mergeImports imps) = fold Set_add (map importKey imps) []"
  by (simp add: mergeImports_def fold_key_list)

lemma find_append_option:
  "find P (xs @ ys) = (case find P xs of Some x \<Rightarrow> Some x | None \<Rightarrow> find P ys)"
  by (induction xs) auto

lemma fold_entries:
  "map_of (fold (\<lambda>imp. Map_set (importKey imp) imp) imps m) k =
     (case find (\<lambda>i. importKey i = k) (rev imps) of Some i \<Rightarrow> Some i | None \<Rightarrow> map_of m k)"
proof (induction imps arbitrary: m)
  case Nil
  show ?case by simp
next
  case (Cons a imps)
  show ?case
    by (simp add: Cons [of "Map_set (importKey a) a m"] find_append_option Map_set_map_of
          split: option.splits)
qed

lemma mergeImports_entries: "map_of (mergeImports imps) k = lastWithKey k imps"
  by (simp add: mergeImports_def fold_entries lastWithKey_def split: option.splits)

lemma Map_set_same: "map_of m k = Some v \<Longrightarrow> Map_set k v m = m"
  by (induction m) (auto split: if_splits)

lemma mergeImports_snoc:
  "mergeImports (imps @ [imp]) = Map_set (importKey imp) imp (mergeImports imps)"
  by (simp add: mergeImports_def)

lemma mergeImports_repeat:
  assumes "Map_get (importKey imp) (mergeImports imps) = Some imp"
  shows "mergeImports (imps @ [imp]) = mergeImports imps"
  using assms by (simp add: mergeImports_snoc Map_set_same Map_get_def)

lemma allImports_repeat:
  assumes "Map_get (importKey imp) (mergeImports (e @ s @ a)) = Some imp"
  shows "allImports e s (a @ [imp]) = allImports e s a"
proof -
  have "mergeImports (e @ s @ a @ [imp]) = mergeImports (e @ s @ a)"
    using mergeImports_repeat [OF assms] by simp
  then show ?thesis by (simp add: allImports_def)
qed

lemma allImports_key_list:
  "map fst (allImports e s a) =
     (if list_ex isReactDefaultImport (Map_values (mergeImports (e @ s @ a)))
      then fold Set_add (map importKey (e @ s @ a)) []
      else Set_add ''react:React'' (fold Set_add (map importKey (e @ s @ a)) []))"
  by (simp add: allImports_def Let_def Map_set_key_list mergeImports_key_list)

lemma allImports_entries:
  "map_of (allImports e s a) k =
     (if \<not> list_ex isReactDefaultImport (Map_values (mergeImports (e @ s @ a)))
         \<and> k = ''react:React''
      then Some reactImport else lastWithKey k (e @ s @ a))"
  by (simp add: allImports_def Let_def Map_set_map_of mergeImports_entries)

text \<open>
  C3, as the code has it. The merge walks the fragment's imports, the suggested
  imports and the additional imports in that order and keys each by the string
  \<open>module:name1,name2,...\<close>, the specifier names in the order written, not sorted. The
  merged map has one entry per key, in the order in which the keys first occur, and the
  entry of a key is the last source import with that key: a later import replaces an
  earlier one in place. The map the statements are generated from is the merged map,
  except that, when no merged import is a default import of \<open>React\<close> from \<open>react\<close>,
  the key \<open>react:React\<close> is given the import \<open>import React from 'react'\<close>, at its
  place if the key is there and at the end otherwise. The unit is the block of these
  statements followed by the fragment text, wrapped or not, which keeps whatever
  import statements it has. Repeating, at the end of the additional imports, the
  import that is currently the entry of its key leaves the unit as it was.
\<close>

theorem allImports_one_entry_per_key:
  "map fst (mergeImports imps) = fold Set_add (map importKey imps) []
   \<and> map_of (mergeImports imps) k = lastWithKey k imps
   \<and> map fst (allImports existing suggested additional) =
       (if list_ex isReactDefaultImport
             (Map_values (mergeImports (existing @ suggested @ additional)))
        then fold Set_add (map importKey (existing @ suggested @ additional)) []
        else Set_add ''react:React''
               (fold Set_add (map importKey (existing @ suggested @ additional)) []))
   \<and> map_of (allImports existing suggested additional) k =
       (if \<not> list_ex isReactDefaultImport
               (Map_values (mergeImports (existing @ suggested @ additional)))
           \<and> k = ''react:React''
        then Some reactImport else lastWithKey k (existing @ suggested @ additional))
   \<and> map importKey (Map_values (allImports existing suggested additional)) =
       map fst (allImports existing suggested additional)
   \<and> distinct (map importKey (Map_values (allImports existing suggested additional)))
   \<and> generateFullCode h options =
       nl @ join nl (map generateImportStatement
              (Map_values (allImports (existingImports options) (suggestedImports options)
                 (additionalImports options))))
       @ nl @ nl
       @ (if wrapComponent options \<noteq> Some False
          then wrapComponentCode h (code options) (mockProps options) else code options)
       @ nl
   \<and> (Map_get (importKey imp)
         (mergeImports (existingImports options @ suggestedImports options
            @ additionalImports options)) = Some imp \<longrightarrow>
       generateFullCode h (options\<lparr>additionalImports := additionalImports options @ [imp]\<rparr>)
         = generateFullCode h options)"
proof (intro conjI impI)
  show "map fst (mergeImports imps) = fold Set_add (map importKey imps) []"
    by (rule mergeImports_key_list)
  show "map_of (mergeImports imps) k = lastWithKey k imps"
    by (rule mergeImports_entries)
  show "map fst (allImports existing suggested additional) =
       (if list_ex isReactDefaultImport
             (Map_values (mergeImports (existing @ suggested @ additional)))
        then fold Set_add (map importKey (existing @ suggested @ additional)) []
        else Set_add ''react:React''
               (fold Set_add (map importKey (existing @ suggested @ additional)) []))"
    by (rule allImports_key_list)
  show "map_of (allImports existing suggested additional) k =
       (if \<not> list_ex isReactDefaultImport
               (Map_values (mergeImports (existing @ suggested @ additional)))
           \<and> k = ''react:React''
        then Some reactImport else lastWithKey k (existing @ suggested @ additional))"
    by (rule allImports_entries)
  show k: "map importKey (Map_values (allImports existing suggested additional)) =
       map fst (allImports existing suggested additional)"
    by (rule keyed_values [OF keyed_allImports])
  show "distinct (map importKey (Map_values (allImports existing suggested additional)))"
    using keyed_allImports [of existing suggested additional] unfolding k
    by (simp add: keyed_def)
  show "generateFullCode h options =
       nl @ join nl (map generateImportStatement
              (Map_values (allImports (existingImports options) (suggestedImports options)
                 (additionalImports options))))
       @ nl @ nl
       @ (if wrapComponent options \<noteq> Some False
          then wrapComponentCode h (code options) (mockProps options) else code options)
       @ nl"
    by (simp add: generateFullCode_def Let_def)
next
  assume "Map_get (importKey imp)
         (mergeImports (existingImports options @ suggestedImports options
            @ additionalImports options)) = Some imp"
  from allImports_repeat [OF this]
  show "generateFullCode h (options\<lparr>additionalImports := additionalImports options @ [imp]\<rparr>)
         = generateFullCode h options"
    by (simp add: generateFullCode_def)
qed

lemma stmt_AB: "generateImportStatement importAB = ''import { a, b } from '' @ sq @ ''m'' @ sq @ '';''"
  by (simp add: generateImportStatement_def namedSpecifierText_def importAB_def named_def)

lemma stmt_BA: "generateImportStatement importBA = ''import { b, a } from '' @ sq @ ''m'' @ sq @ '';''"
  by (simp add: generateImportStatement_def namedSpecifierText_def importBA_def named_def)

lemma stmt_A: "generateImportStatement importA = ''import { a } from '' @ sq @ ''m'' @ sq @ '';''"
  by (simp add: generateImportStatement_def namedSpecifierText_def importA_def named_def)

lemma stmt_AasX: "generateImportStatement importAasX = ''import { a as x } from '' @ sq @ ''m'' @ sq @ '';''"
  by (simp add: generateImportStatement_def namedSpecifierText_def importAasX_def named_def)

lemma stmt_React: "generateImportStatement reactImport = ''import React from '' @ sq @ ''react'' @ sq @ '';''"
  by (simp add: generateImportStatement_def reactImport_def)

lemma key_AB: "importKey importAB = ''m:a,b''" by (simp add: importKey_def importAB_def named_def)
lemma key_BA: "importKey importBA = ''m:b,a''" by (simp add: importKey_def importBA_def named_def)
lemma key_A: "importKey importA = ''m:a''" by (simp add: importKey_def importA_def named_def)
lemma key_AasX: "importKey importAasX = ''m:a''" by (simp add: importKey_def importAasX_def named_def)

lemma notReact_m:
  "\<not> isReactDefaultImport importAB" "\<not> isReactDefaultImport importBA"
  "\<not> isReactDefaultImport importA" "\<not> isReactDefaultImport importAasX"
  by (simp_all add: isReactDefaultImport_def importAB_def importBA_def importA_def importAasX_def)

lemma all_AB_BA: "Map_values (allImports [importAB] [] [importBA]) = [importAB, importBA, reactImport]"
  by (simp add: allImports_def mergeImports_def Map_values_def key_AB key_BA notReact_m)

lemma all_A_AasX: "Map_values (allImports [importA] [] [importAasX]) = [importAasX, reactImport]"
  by (simp add: allImports_def mergeImports_def Map_values_def key_A key_AasX notReact_m)

lemma all_A_A: "Map_values (allImports [importA] [] [importA]) = [importA, reactImport]"
  by (simp add: allImports_def mergeImports_def Map_values_def key_A notReact_m)

text \<open>
  As the specification states it, the property fails twice. \<open>import { a, b } from 'm'\<close> among the fragment's imports
  and \<open>import { b, a } from 'm'\<close> among the additional ones have the same module and
  the same sorted names, and both are emitted. \<open>import { a } from 'm'\<close> followed by
  the additional \<open>import { a as x } from 'm'\<close> has one key, and the later one is the
  one emitted.
\<close>

theorem allImports_sorted_key_counterexample:
  "map generateImportStatement (Map_values (allImports [importAB] [] [importBA])) =
     [''import { a, b } from '' @ sq @ ''m'' @ sq @ '';'',
      ''import { b, a } from '' @ sq @ ''m'' @ sq @ '';'',
      ''import React from '' @ sq @ ''react'' @ sq @ '';'']
   \<and> map generateImportStatement (Map_values (allImports [importA] [] [importAasX])) =
     [''import { a as x } from '' @ sq @ ''m'' @ sq @ '';'',
      ''import React from '' @ sq @ ''react'' @ sq @ '';'']"
  by (simp add: all_AB_BA all_A_AasX stmt_AB stmt_BA stmt_AasX stmt_React)

theorem allImports_one_entry_per_key_witness:
  "Map_get (importKey importA)
     (mergeImports (existingImports repeatedImport @ suggestedImports repeatedImport
        @ additionalImports repeatedImport)) = Some importA
   \<and> generateFullCode exampleHost
        (repeatedImport\<lparr>additionalImports := additionalImports repeatedImport @ [importA]\<rparr>)
       = generateFullCode exampleHost repeatedImport
   \<and> map generateImportStatement (Map_values (allImports [importA] [] [importA])) =
       [''import { a } from '' @ sq @ ''m'' @ sq @ '';'',
        ''import React from '' @ sq @ ''react'' @ sq @ '';'']
   \<and> map fst (allImports [importAasX, importAB] [] [importA]) = [''m:a'', ''m:a,b'', ''react:React'']
   \<and> map_of (allImports [importAasX, importAB] [] [importA]) ''m:a'' = Some importA"
proof -
  have g: "Map_get (importKey importA)
     (mergeImports (existingImports repeatedImport @ suggestedImports repeatedImport
        @ additionalImports repeatedImport)) = Some importA"
    by (simp add: repeatedImport_def mergeImports_def Map_get_def key_A)
  have n: "\<not> list_ex isReactDefaultImport
      (Map_values (mergeImports ([importAasX, importAB] @ [] @ [importA])))"
    by (simp add: mergeImports_def Map_values_def key_A key_AasX key_AB notReact_m)
  have f: "fold Set_add (map importKey ([importAasX, importAB] @ [] @ [importA])) [] =
      [''m:a'', ''m:a,b'']"
    by (simp add: key_A key_AasX key_AB Set_add_def)
  have l: "lastWithKey ''m:a'' ([importAasX, importAB] @ [] @ [importA]) = Some importA"
    by (simp add: lastWithKey_def key_A)
  note T = allImports_one_entry_per_key
    [where options = repeatedImport and imp = importA and h = exampleHost
       and existing = "[importAasX, importAB]" and suggested = "[]" and additional = "[importA]"
       and k = "''m:a''"]
  from T g have 1: "generateFullCode exampleHost
        (repeatedImport\<lparr>additionalImports := additionalImports repeatedImport @ [importA]\<rparr>)
       = generateFullCode exampleHost repeatedImport"
    by blast
  from T n f have 2: "map fst (allImports [importAasX, importAB] [] [importA]) =
      [''m:a'', ''m:a,b'', ''react:React'']"
    by (simp add: Set_add_def)
  from T n l have 3: "map_of (allImports [importAasX, importAB] [] [importA]) ''m:a'' = Some importA"
    by simp
  from g 1 2 3 show ?thesis
    by (simp add: all_A_A stmt_A stmt_React)
qed


section \<open>Properties of the assembled unit\<close>







text \<open>
  C4, as the code has it. A fragment whose text contains \<open>export default\<close> or
  \<open>export {\<close> is returned by \<open>wrapComponentCode\<close> as it is, whatever the mock
  props, and the assembled unit is the import statements, a blank line and that text.
\<close>

theorem wrapComponentCode_export_passthrough:
  assumes "includes_str (code options) ''export default'' \<or>
           includes_str (code options) ''export {''"
  shows "wrapComponentCode h (code options) props = code options
     \<and> generateFullCode h options =
         nl @ join nl (map generateImportStatement
                (Map_values (allImports (existingImports options) (suggestedImports options)
                   (additionalImports options))))
         @ nl @ nl @ code options @ nl"
  using assms by (auto simp: wrapComponentCode_def generateFullCode_def Let_def)


lemmas match_defs = matchComponentAt_def declarationKeyword_def optionalKeyword_def
  keywordThenSpace_def startsWith_def isSpaceChar_def isWordChar_def

lemma match_named_export: "componentMatch ''export const A = 1;'' = Some ''A''"
  by (simp add: match_defs)



lemma no_export_named:
  "\<not> includes_str ''export const A = 1;'' ''export default''"
  "\<not> includes_str ''export const A = 1;'' ''export {''"
  by code_simp+



lemma export_counter:
  "includes_str ''export default function Counter() {}'' ''export default''"
  by (simp add: includes_str_def)

text \<open>
  As the specification states it, the property fails for an export that is neither a default export nor an export
  list: \<open>export const A = 1;\<close> contains an export and still gets the preview wrapper,
  rendering \<open>A\<close>.
\<close>

theorem wrapComponentCode_named_export_counterexample:
  "includes_str ''export const A = 1;'' ''export''
   \<and> wrapComponentCode exampleHost ''export const A = 1;'' (Some ()) =
       previewWrapper ''export const A = 1;'' ''{}'' ''A''
   \<and> wrapComponentCode exampleHost ''export const A = 1;'' (Some ()) \<noteq> ''export const A = 1;''"
proof -
  have a: "includes_str ''export const A = 1;'' ''export''"
    by (simp add: includes_str_def)
  have b: "wrapComponentCode exampleHost ''export const A = 1;'' (Some ()) =
       previewWrapper ''export const A = 1;'' ''{}'' ''A''"
    unfolding wrapComponentCode_def componentNameOf_def match_named_export
    by (simp add: no_export_named exampleHost_def)
  have c: "previewWrapper ''export const A = 1;'' ''{}'' ''A'' \<noteq> ''export const A = 1;''"
    by (simp add: previewWrapper_def nl_def)
  from a b c show ?thesis by simp
qed

theorem wrapComponentCode_export_passthrough_witness:
  "includes_str (code exportedCounter) ''export default''
   \<and> wrapComponentCode exampleHost (code exportedCounter) (Some ()) =
       ''export default function Counter() {}''
   \<and> generateFullCode exampleHost exportedCounter =
       nl @ ''import React from '' @ sq @ ''react'' @ sq @ '';'' @ nl @ nl @
       ''export default function Counter() {}'' @ nl"
proof -
  have a: "includes_str (code exportedCounter) ''export default''"
    by (simp add: exportedCounter_def export_counter)
  have b: "Map_values (allImports (existingImports exportedCounter)
             (suggestedImports exportedCounter) (additionalImports exportedCounter)) = [reactImport]"
    by (simp add: exportedCounter_def allImports_def mergeImports_def Map_values_def)
  have c: "code exportedCounter = ''export default function Counter() {}''"
    by (simp add: exportedCounter_def)
  show ?thesis
    using wrapComponentCode_export_passthrough [of exportedCounter exampleHost "Some ()"] a
    unfolding b c by (simp add: stmt_React)
qed








section \<open>Properties of compile\<close>

lemma counter_identifiers:
  "extractIdentifiers counterSourceFile = ([''useState'', ''Counter''], [''Counter''])"
  by (simp add: extractIdentifiers_def counterSourceFile_def Set_add_def)

lemma counter_imports: "extractImports counterSourceFile = [stateLibImport]"
  by (simp add: extractImports_def counterSourceFile_def stateLibImport_def named_def
        startsWith_def)

lemma counter_missing: "findMissing [''useState'', ''Counter''] [''Counter''] [] = [''useState'']"
  by (simp add: isBuiltinIdentifier_def builtins_def Set_add_def)

lemma counter_parse:
  "ts_createSourceFile counterHost ''snippet.tsx'' counterFragment = counterSourceFile"
  by (simp add: counterHost_def exampleHost_def)

lemma counter_resolve:
  "resolveModulePath counterHost exampleResolver ''state-lib'' None = (None, exampleResolver)"
  by (simp add: resolveModulePath_def resolveWithNode_def counterHost_def exampleHost_def
        exampleResolver_def Map_has_def cacheKey_def)

lemma counter_analysis:
  "analyzeDependencies counterHost exampleResolver counterFragment None =
     (\<lparr>imports' = [stateLibImport], usedIdentifiers = [''useState'', ''Counter''],
       missingIdentifiers = [''useState''], resolvedModules = []\<rparr>, exampleResolver)"
proof -
  have m: "module stateLibImport = ''state-lib''" by (simp add: stateLibImport_def)
  show ?thesis
    by (simp add: analyzeDependencies_def counter_parse counter_identifiers counter_imports
          counter_missing m counter_resolve del: findMissing.simps)
qed

lemma counter_suggestions:
  "suggestImportsForIdentifiers counterHost exampleResolver [''useState''] [] [] =
     Inr [(''useState'', [packageImport ''useState'' (''react'', False)])]"
  by (simp add: getCommonPackagesForIdentifier_def commonMappings_def)

lemma stmt_stateLib:
  "generateImportStatement stateLibImport = ''import { useState } from '' @ sq @ ''state-lib'' @ sq @ '';''"
  by (simp add: generateImportStatement_def namedSpecifierText_def stateLibImport_def named_def)

lemma stmt_reactUseState:
  "generateImportStatement reactUseState = ''import { useState } from '' @ sq @ ''react'' @ sq @ '';''"
  by (simp add: generateImportStatement_def namedSpecifierText_def reactUseState_def packageImport_def)

lemma counter_all:
  "Map_values (allImports [stateLibImport] [reactUseState] []) =
     [stateLibImport, reactUseState, reactImport]"
proof -
  have k1: "importKey stateLibImport = ''state-lib:useState''"
    by (simp add: importKey_def stateLibImport_def named_def)
  have k2: "importKey reactUseState = ''react:useState''"
    by (simp add: importKey_def reactUseState_def packageImport_def)
  have n: "\<not> isReactDefaultImport stateLibImport" "\<not> isReactDefaultImport reactUseState"
    by (simp_all add: isReactDefaultImport_def stateLibImport_def reactUseState_def
          packageImport_def)
  show ?thesis
    by (simp add: allImports_def mergeImports_def Map_values_def k1 k2 n)
qed

lemma counter_exported: "includes_str counterFragment ''export default''"
proof -
  have "counterFragment =
      (''import {useState} from '' @ sq @ ''state-lib'' @ sq @ ''; '') @ ''export default'' @
      '' function Counter(){ return useState(0); }''"
    by (simp add: counterFragment_def)
  then show ?thesis
    unfolding includes_str_def by (metis sublist_appendI)
qed

lemma counter_fullCode:
  "generateFullCode counterHost
     \<lparr>code = counterFragment, existingImports = [stateLibImport],
      suggestedImports = [reactUseState], additionalImports = [],
      mockProps = None, wrapComponent = None\<rparr> = counterUnit"
  by (simp add: generateFullCode_def counter_all wrapComponentCode_def counter_exported
        stmt_stateLib stmt_reactUseState stmt_React counterUnit_def)

lemma counter_options:
  "SmartCompileOptions.code counterOptions = counterFragment"
  "filePath counterOptions = None"
  "SmartCompileOptions.mockProps counterOptions = None"
  "SmartCompileOptions.additionalImports counterOptions = None"
  "SmartCompileOptions.wrapComponent counterOptions = None"
  by (simp_all add: counterOptions_def)

lemma example_compiler:
  "dependencyResolver exampleCompiler = exampleResolver"
  "projectFiles exampleCompiler = []"
  "compilerRoot exampleCompiler = ''/proj''"
  "exampleCompiler\<lparr>dependencyResolver := exampleResolver\<rparr> = exampleCompiler"
  by (simp_all add: exampleCompiler_def)

lemma counter_suggested:
  "suggestedFor h exampleCompiler counterContext exampleResolver = Inr [reactUseState]"
  by (simp add: suggestedFor_def counterContext_def example_compiler
        getCommonPackagesForIdentifier_def commonMappings_def reactUseState_def)

lemma counter_unit:
  "fullCodeFor h counterOptions counterContext [reactUseState] = counterUnit"
  by (simp add: fullCodeFor_def counter_options counterContext_def generateFullCode_def
        counter_all wrapComponentCode_def counter_exported stmt_stateLib stmt_reactUseState
        stmt_React counterUnit_def)

lemma counter_build:
  "buildFor h exampleCompiler counterOptions counterContext u =
     esbuild_build h u ''/proj'' (createResolvePlugin h [])"
  by (simp add: buildFor_def counter_options counterContext_def example_compiler)

lemma counter_compile:
  "compile counterHost exampleCompiler counterOptions =
     Inr (\<lparr>success = True, CompilationResult.code = Some counterUnit, error = None,
           warnings = Some []\<rparr>, exampleCompiler)"
proof -
  have b: "esbuild_build counterHost t d r =
      Inr \<lparr>errors = [], buildWarnings = [], outputFiles = Some [t]\<rparr>" for t d r
    by (simp add: counterHost_def)
  have w: "compileWith counterHost exampleCompiler counterOptions counterContext exampleResolver =
     Inr \<lparr>success = True, CompilationResult.code = Some counterUnit, error = None,
           warnings = Some []\<rparr>"
    by (simp add: compileWith_def counter_suggested counter_unit counter_build b
          buildOutcome_def)
  show ?thesis
    unfolding compile_def counter_options example_compiler counter_analysis
      counterContext_def [symmetric]
    by (simp add: w example_compiler)
qed











text \<open>
  C2. The specification expects no missing identifier, no suggested import and two import
  statements for a fragment that imports \<open>useState\<close> itself. On
  \<open>import {useState} from 'state-lib'; export default function Counter(){ return
  useState(0); }\<close> the analysis reports \<open>useState\<close> as missing, since names bound by an
  import are never counted as declared; the built-in table then suggests
  \<open>react\<close> for it, and the unit handed to the bundler has three import statements, two
  of them binding \<open>useState\<close>. No wrapper is appended.
\<close>

theorem compile_counter_fragment_adds_import:
  "missingIdentifiers (fst (analyzeDependencies counterHost exampleResolver counterFragment None))
     = [''useState'']
   \<and> fst (analyzeDependencies counterHost exampleResolver counterFragment None)
     = \<lparr>imports' = [stateLibImport], usedIdentifiers = [''useState'', ''Counter''],
        missingIdentifiers = [''useState''], resolvedModules = []\<rparr>
   \<and> suggestImportsForIdentifiers counterHost exampleResolver [''useState''] [] [] =
       Inr [(''useState'', [packageImport ''useState'' (''react'', False)])]
   \<and> compile counterHost exampleCompiler counterOptions =
       Inr (\<lparr>success = True, CompilationResult.code = Some counterUnit, error = None,
             warnings = Some []\<rparr>, exampleCompiler)"
  by (simp add: counter_analysis counter_suggestions counter_compile
        del: suggestImportsForIdentifiers.simps)

section \<open>Unresolved modules\<close>





















end
